theory Spec2Isabelle
  imports Complex_Main "HOL-Library.Sublist"
begin

section \<open>Navigation: active-tab selection (components/layout/Navigation.tsx)\<close>

text \<open>
  A navigation entry. The icon is presentational and is left out; \<open>adminOnly\<close> is the
  optional flag of the source (absent means not restricted).
\<close>

record NavigationItem =
  label :: string
  path :: string
  adminOnly :: bool

definition navigationItems :: "NavigationItem list" where
  "navigationItems =
     [\<lparr>label = ''Dashboard'', path = ''/'', adminOnly = False\<rparr>,
      \<lparr>label = ''Wagers'', path = ''/wagers'', adminOnly = False\<rparr>,
      \<lparr>label = ''Live Tracking'', path = ''/live'', adminOnly = False\<rparr>,
      \<lparr>label = ''Analytics'', path = ''/analytics'', adminOnly = False\<rparr>,
      \<lparr>label = ''Admin'', path = ''/admin'', adminOnly = True\<rparr>]"

text \<open>\<open>String.prototype.startsWith\<close>: character-wise comparison from position 0.\<close>

fun startsWith :: "string \<Rightarrow> string \<Rightarrow> bool" where
  "startsWith s [] = True"
| "startsWith [] (c # cs) = False"
| "startsWith (d # ds) (c # cs) = (d = c \<and> startsWith ds cs)"

text \<open>
  \<open>Array.prototype.findIndex\<close>: the index of the first element satisfying the
  predicate, \<open>-1\<close> when there is none.
\<close>

fun findIndex :: "('a \<Rightarrow> bool) \<Rightarrow> 'a list \<Rightarrow> int" where
  "findIndex p [] = -1"
| "findIndex p (x # xs) =
     (if p x then 0 else (let i = findIndex p xs in if i < 0 then -1 else i + 1))"

text \<open>The filter on the user's role; \<open>isAdmin\<close> stands for \<open>user?.role === 'admin'\<close>.\<close>

definition visibleItems :: "bool \<Rightarrow> NavigationItem list" where
  "visibleItems isAdmin =
     filter (\<lambda>item. \<not> (adminOnly item \<and> \<not> isAdmin)) navigationItems"

text \<open>The callback handed to \<open>findIndex\<close>.\<close>

definition itemMatches :: "string \<Rightarrow> NavigationItem \<Rightarrow> bool" where
  "itemMatches currentPath item =
     (if path item = ''/'' then currentPath = ''/'' else startsWith currentPath (path item))"

definition currentIndex :: "NavigationItem list \<Rightarrow> string \<Rightarrow> int" where
  "currentIndex items currentPath = findIndex (itemMatches currentPath) items"

text \<open>The \<open>value\<close> property of the tab bar: \<open>currentIndex >= 0 ? currentIndex : 0\<close>.\<close>

definition selectedTab :: "NavigationItem list \<Rightarrow> string \<Rightarrow> int" where
  "selectedTab items currentPath =
     (let i = currentIndex items currentPath in if i \<ge> 0 then i else 0)"

section \<open>Wagers: the card, the detail view and the list (components/wagers)\<close>

datatype WagerStatus = Pending | Won | Lost | Push | Cancelled

text \<open>
  The fields of a \<open>Wager\<close> that the components below branch on. The stake \<open>amount\<close> is
  kept as a rational number, the \<open>line\<close> as the free text it is.
\<close>

record Wager =
  wagerId :: int
  description :: string
  amount :: rat
  line :: string
  status :: WagerStatus
  isFrePlay :: bool
  isLiveBet :: bool
  archived :: bool

text \<open>\<open>const isActive = wager.status === 'pending' && !wager.archived\<close>, in both components.\<close>

definition isActive :: "Wager \<Rightarrow> bool" where
  "isActive w = (status w = Pending \<and> \<not> archived w)"

subsection \<open>WagerCard\<close>

text \<open>
  The props of \<open>WagerCard\<close> (\<open>showActions\<close> defaults to true and \<open>loading\<close> to false at the
  call site; \<open>onEdit\<close> is optional) and its two pieces of local state, the anchors of
  the actions menu and of the status menu, each either set or null.
\<close>

record WagerCardProps =
  wager :: Wager
  showActions :: bool
  loading :: bool
  hasOnEdit :: bool

record WagerCardState =
  anchorEl :: bool
  statusMenuAnchor :: bool

text \<open>What a render of the card contains, for the conditionally rendered parts.\<close>

record WagerCardView =
  emphasizedBorder :: bool
  reducedOpacity :: bool
  freePlayChip :: bool
  liveBetChip :: bool
  archivedChip :: bool
  actionsButton :: bool
  updateStatusButton :: bool
  buttonsDisabled :: bool
  actionsMenuOpen :: bool
  editMenuItem :: bool
  statusMenuOpen :: bool

definition WagerCard :: "WagerCardProps \<Rightarrow> WagerCardState \<Rightarrow> WagerCardView" where
  "WagerCard props st =
     (let w = wager props; active = isActive w in
      \<lparr>emphasizedBorder = active,
       reducedOpacity = archived w,
       freePlayChip = isFrePlay w,
       liveBetChip = isLiveBet w,
       archivedChip = archived w,
       actionsButton = showActions props,
       updateStatusButton = (active \<and> showActions props),
       buttonsDisabled = loading props,
       actionsMenuOpen = anchorEl st,
       editMenuItem = hasOnEdit props,
       statusMenuOpen = statusMenuAnchor st\<rparr>)"

subsection \<open>WagerDetail\<close>

record WagerDetailProps =
  detailWager :: Wager
  detailLoading :: bool
  detailHasOnEdit :: bool
  detailHasOnClose :: bool

text \<open>
  The conditionally rendered parts of the detail view; \<open>statusButtons\<close> lists the
  statuses of the "Mark as ..." buttons of the status-update row, in order.
\<close>

record WagerDetailView =
  detailArchivedChip :: bool
  detailEditButton :: bool
  detailCloseButton :: bool
  statusButtons :: "WagerStatus list"
  detailButtonsDisabled :: bool

definition WagerDetail :: "WagerDetailProps \<Rightarrow> WagerDetailView" where
  "WagerDetail props =
     (let w = detailWager props in
      \<lparr>detailArchivedChip = archived w,
       detailEditButton = detailHasOnEdit props,
       detailCloseButton = detailHasOnClose props,
       statusButtons = (if isActive w then [Won, Lost, Push, Cancelled] else []),
       detailButtonsDisabled = detailLoading props\<rparr>)"

subsection \<open>WagerList: selection and bulk actions\<close>

text \<open>
  A JavaScript \<open>Set<number>\<close> keeps its elements in insertion order without duplicates:
  a list, with \<open>add\<close> appending only a new element.
\<close>

definition set_add :: "int \<Rightarrow> int list \<Rightarrow> int list" where
  "set_add x s = (if x \<in> set s then s else s @ [x])"

definition set_delete :: "int \<Rightarrow> int list \<Rightarrow> int list" where
  "set_delete x s = filter (\<lambda>y. y \<noteq> x) s"

text \<open>\<open>new Set(iterable)\<close> adds the elements one after the other.\<close>

definition new_Set :: "int list \<Rightarrow> int list" where
  "new_Set xs = foldl (\<lambda>s x. set_add x s) [] xs"

record WagerListState =
  selectedWagers :: "int list"
  bulkMenuAnchor :: bool

definition initialListState :: WagerListState where
  "initialListState = \<lparr>selectedWagers = new_Set [], bulkMenuAnchor = False\<rparr>"

text \<open>
  The calls a handler of the list makes: the three single-item callbacks it receives as
  props, and the batch operation of the service layer that exists beside them.
\<close>

datatype ListCall =
  OnWagerStatusUpdate int WagerStatus
  | OnWagerArchive int bool
  | OnWagerDelete int
  | BulkUpdateStatusApi "int list" WagerStatus

definition handleSelectAll :: "Wager list \<Rightarrow> bool \<Rightarrow> WagerListState \<Rightarrow> WagerListState" where
  "handleSelectAll wagers checked st =
     (if checked then st\<lparr>selectedWagers := new_Set (map wagerId wagers)\<rparr>
      else st\<lparr>selectedWagers := new_Set []\<rparr>)"

definition handleSelectWager :: "int \<Rightarrow> bool \<Rightarrow> WagerListState \<Rightarrow> WagerListState" where
  "handleSelectWager wid checked st =
     (let newSelected = new_Set (selectedWagers st) in
      st\<lparr>selectedWagers :=
        (if checked then set_add wid newSelected else set_delete wid newSelected)\<rparr>)"

definition handleBulkMenuClose :: "WagerListState \<Rightarrow> WagerListState" where
  "handleBulkMenuClose st = st\<lparr>bulkMenuAnchor := False\<rparr>"

text \<open>
  \<open>selectedWagers.forEach(id => onWagerStatusUpdate(id, status))\<close>, then the selection is
  replaced by an empty set and the menu closed. The result is the list of calls made, in
  order, and the new state.
\<close>

definition handleBulkStatusUpdate ::
  "WagerStatus \<Rightarrow> WagerListState \<Rightarrow> ListCall list \<times> WagerListState" where
  "handleBulkStatusUpdate st_new st =
     (map (\<lambda>wid. OnWagerStatusUpdate wid st_new) (selectedWagers st),
      handleBulkMenuClose (st\<lparr>selectedWagers := new_Set []\<rparr>))"

text \<open>The card of a wager inside the list is rendered with \<open>showActions={!hasSelection}\<close>
  when bulk actions are enabled, and with the default otherwise.\<close>

definition listCardProps :: "bool \<Rightarrow> WagerListState \<Rightarrow> Wager \<Rightarrow> bool \<Rightarrow> WagerCardProps" where
  "listCardProps showBulkActions st w hasEdit =
     \<lparr>wager = w,
      showActions = (if showBulkActions then \<not> (length (selectedWagers st) > 0) else True),
      loading = False,
      hasOnEdit = hasEdit\<rparr>"

section \<open>The WebSocket service: reconnection (class SocketService)\<close>

text \<open>
  The socket of the client library, as far as reconnection goes: whether it is
  connected, and the manager's options \<open>reconnection\<close> and \<open>reconnectionAttempts\<close> (\<open>None\<close>
  is \<open>Infinity\<close>) with the number of attempts of the running reconnection series.
\<close>

record Socket =
  socket_connected :: bool
  reconnection :: bool
  reconnectionAttempts :: "nat option"
  backoffAttempts :: nat







text \<open>
  What happens besides the updates of the counters. The service arms a timer whose
  callback calls \<open>socket.connect()\<close> (one reconnect attempt) after the delay, in
  milliseconds, or it logs that its bound is reached. The library's manager arms its own
  timer for a reconnect attempt (after a randomised delay of at most five seconds), or
  gives up with \<open>reconnect_failed\<close>.
\<close>

datatype SocketAction =
  SetTimeoutReconnect nat | LogMaxReached | ManagerReconnect | ReconnectFailed



text \<open>
  The manager's \<open>reconnect\<close>: it gives up when the attempts of the series have reached
  \<open>reconnectionAttempts\<close>, and otherwise counts the attempt and arms its timer.
\<close>

definition managerReconnect :: "Socket \<Rightarrow> Socket \<times> SocketAction list" where
  "managerReconnect so =
     (if (case reconnectionAttempts so of None \<Rightarrow> False | Some n \<Rightarrow> n \<le> backoffAttempts so)
      then (so\<lparr>backoffAttempts := 0\<rparr>, [ReconnectFailed])
      else (so\<lparr>backoffAttempts := backoffAttempts so + 1\<rparr>, [ManagerReconnect]))"







section \<open>Authentication utilities: error messages (utils/auth)\<close>

text \<open>
  The shape \<open>formatAuthError\<close> reads off its argument: an optional \<open>response\<close> with an
  optional \<open>data.detail\<close> text and an optional numeric \<open>status\<close>, and an optional
  \<open>message\<close>. A field that is absent (or undefined) is \<open>None\<close>.
\<close>

record ResponseData =
  detail :: "string option"

record ErrorResponse =
  responseData :: "ResponseData option"
  responseStatus :: "int option"

record AuthError =
  response :: "ErrorResponse option"
  message :: "string option"

text \<open>Optional chaining: \<open>error.response?.data?.detail\<close> and \<open>error.response?.status\<close>.\<close>

definition response_data_detail :: "AuthError \<Rightarrow> string option" where
  "response_data_detail e =
     (case response e of None \<Rightarrow> None
      | Some r \<Rightarrow> (case responseData r of None \<Rightarrow> None | Some d \<Rightarrow> detail d))"

definition response_status :: "AuthError \<Rightarrow> int option" where
  "response_status e = (case response e of None \<Rightarrow> None | Some r \<Rightarrow> responseStatus r)"

text \<open>
  Truthiness of an optional string, as an \<open>if\<close> tests it: undefined and the empty string
  are falsy, every other string is truthy.
\<close>

fun truthy :: "string option \<Rightarrow> bool" where
  "truthy None = False"
| "truthy (Some s) = (s \<noteq> [])"

definition formatAuthError :: "AuthError \<Rightarrow> string" where
  "formatAuthError e =
     (if truthy (response_data_detail e) then
        (case response_data_detail e of Some d \<Rightarrow> d | None \<Rightarrow> [])
      else if response_status e = Some 401 then ''Invalid username or password''
      else if response_status e = Some 403 then ''Access denied''
      else if (case response_status e of Some n \<Rightarrow> n \<ge> 500 | None \<Rightarrow> False)
        then ''Server error. Please try again later.''
      else if truthy (message e) then
        (case message e of Some m \<Rightarrow> m | None \<Rightarrow> [])
      else ''An unexpected error occurred'')"

section \<open>The wager query hooks: cache updates after a mutation (hooks/useWagers)\<close>















section \<open>JavaScript numbers and numeric literals\<close>

text \<open>
  A JavaScript number is an IEEE 754 double: a finite value, one of the two infinities,
  or NaN. A finite value is kept as the rational number it is. The two zeros are not
  told apart (they are equal under \<open>===\<close>, and no operation below divides by a zero other
  than the result of \<open>Math.abs\<close>).
\<close>

datatype jsnum = Fin rat | PosInf | NegInf | NaN

subsection \<open>Rounding to a double\<close>

text \<open>The number of binary digits of a positive integer.\<close>

function bitlength :: "int \<Rightarrow> int" where
  "bitlength n = (if n \<le> 0 then 0 else 1 + bitlength (n div 2))"
  by pat_completeness auto
termination
  by (relation "measure nat") auto

declare bitlength.simps [simp del]

text \<open>
  The binary exponent of a positive rational: the \<open>e\<close> with \<open>2 ^ e \<le> x < 2 ^ (e + 1)\<close>.
\<close>

definition ilog2 :: "rat \<Rightarrow> int" where
  "ilog2 x = (if 1 \<le> x then bitlength \<lfloor>x\<rfloor> - 1 else - bitlength (\<lceil>1 / x\<rceil> - 1))"

text \<open>The nearest integer, a tie going to the even one.\<close>

definition roundTiesToEven :: "rat \<Rightarrow> int" where
  "roundTiesToEven y =
     (let m = \<lfloor>y\<rfloor>; r = y - of_int m
      in if r < 1 / 2 then m
         else if 1 / 2 < r then m + 1
         else if even m then m else m + 1)"

text \<open>
  The double nearest to a rational (round to nearest, ties to even). A double has 53
  significant bits, so at binary exponent \<open>e\<close> the doubles are the multiples \<open>m * 2 ^ (e - 52)\<close>
  with \<open>m\<close> up to \<open>2 ^ 53\<close>; below \<open>2 ^ -1022\<close> the spacing stays at \<open>2 ^ -1074\<close> (subnormal
  numbers). The largest exponent is 1023: a result of magnitude \<open>2 ^ 1024\<close> or more, which
  is an exponent above 1023 or the exponent 1023 with \<open>m\<close> rounded up to \<open>2 ^ 53\<close>, is
  an infinity.
\<close>

definition toDouble :: "rat \<Rightarrow> jsnum" where
  "toDouble x =
     (if x = 0 then Fin 0
      else
        (let a = \<bar>x\<bar>;
             e = max (ilog2 a) (- 1022);
             q = 2 powi (e - 52);
             m = roundTiesToEven (a / q)
         in if 1024 \<le> e \<or> (e = 1023 \<and> 9007199254740992 \<le> m)
            then (if 0 < x then PosInf else NegInf)
            else Fin (if 0 < x then of_int m * q else - (of_int m * q))))"



subsection \<open>Operations on numbers\<close>



text \<open>\<open>a < b\<close> and \<open>a > b\<close> on numbers: false as soon as one side is NaN.\<close>

fun js_lt :: "jsnum \<Rightarrow> jsnum \<Rightarrow> bool" where
  "js_lt NaN b = False"
| "js_lt a NaN = False"
| "js_lt (Fin x) (Fin y) = (x < y)"
| "js_lt (Fin x) PosInf = True"
| "js_lt (Fin x) NegInf = False"
| "js_lt PosInf b = False"
| "js_lt NegInf NegInf = False"
| "js_lt NegInf b = True"


fun js_neg :: "jsnum \<Rightarrow> jsnum" where
  "js_neg (Fin x) = Fin (- x)"
| "js_neg PosInf = NegInf"
| "js_neg NegInf = PosInf"
| "js_neg NaN = NaN"


text \<open>
  \<open>a / b\<close>, for a divisor that is not a negative zero: the exact quotient of two finite
  values is rounded to a double; a non-zero finite value over zero is an infinity of the
  dividend's sign, zero over zero is NaN.
\<close>

fun js_div :: "jsnum \<Rightarrow> jsnum \<Rightarrow> jsnum" where
  "js_div NaN b = NaN"
| "js_div a NaN = NaN"
| "js_div (Fin x) (Fin y) =
     (if y \<noteq> 0 then toDouble (x / y)
      else if x = 0 then NaN else if 0 < x then PosInf else NegInf)"
| "js_div (Fin x) PosInf = Fin 0"
| "js_div (Fin x) NegInf = Fin 0"
| "js_div PosInf (Fin y) = (if 0 \<le> y then PosInf else NegInf)"
| "js_div NegInf (Fin y) = (if 0 \<le> y then NegInf else PosInf)"
| "js_div PosInf b = NaN"
| "js_div NegInf b = NaN"


subsection \<open>Decimal literals\<close>

definition is_digit :: "char \<Rightarrow> bool" where
  "is_digit c = (48 \<le> (of_char c :: int) \<and> (of_char c :: int) \<le> 57)"

definition digit_val :: "char \<Rightarrow> int" where
  "digit_val c = of_char c - 48"

text \<open>The value of a run of decimal digits.\<close>

definition digits_val :: "string \<Rightarrow> int" where
  "digits_val ds = foldl (\<lambda>a c. 10 * a + digit_val c) 0 ds"

text \<open>
  The value of a digit run read as a fraction: \<open>.25\<close> is \<open>25 / 10 ^ 2\<close>.
\<close>

definition fraction_val :: "string \<Rightarrow> rat" where
  "fraction_val ds = of_int (digits_val ds) / 10 ^ length ds"

text \<open>
  An exponent part at the start of a string: \<open>e\<close> or \<open>E\<close>, an optional sign, at least one
  digit. The result is the exponent and the rest of the string; a string that does not
  start with a complete exponent part has exponent 0 and is the rest itself.
\<close>

definition exponentPart :: "string \<Rightarrow> int \<times> string" where
  "exponentPart s =
     (case s of
        [] \<Rightarrow> (0, s)
      | c # r \<Rightarrow>
          if c = CHR ''e'' \<or> c = CHR ''E'' then
            (let (neg, r') =
               (case r of
                  [] \<Rightarrow> (False, r)
                | d # r2 \<Rightarrow> if d = CHR ''-'' then (True, r2)
                            else if d = CHR ''+'' then (False, r2) else (False, r));
                 ds = takeWhile is_digit r'
             in if ds = [] then (0, s)
                else ((if neg then - digits_val ds else digits_val ds),
                      dropWhile is_digit r'))
          else (0, s))"

definition pow10 :: "int \<Rightarrow> rat" where
  "pow10 e = (if 0 \<le> e then 10 ^ nat e else 1 / 10 ^ nat (- e))"

text \<open>
  The longest prefix of a string that is an unsigned decimal literal of the grammar of
  numeric strings (\<open>StrUnsignedDecimalLiteral\<close>): \<open>Infinity\<close>, or digits with an optional
  fraction, or a dot followed by digits, each with an optional exponent part. Returns
  the exact value of the literal and the rest, or \<open>None\<close> if no prefix is such a literal;
  \<open>None\<close> in the first component of the value stands for \<open>Infinity\<close>.
\<close>

definition strUnsignedDecimalLiteral :: "string \<Rightarrow> (rat option \<times> string) option" where
  "strUnsignedDecimalLiteral s =
     (if take 8 s = ''Infinity'' then Some (None, drop 8 s)
      else
        (let ip = takeWhile is_digit s; r1 = dropWhile is_digit s in
         if ip \<noteq> [] then
           (case r1 of
              [] \<Rightarrow> Some (Some (of_int (digits_val ip)), [])
            | c # r2 \<Rightarrow>
                if c = CHR ''.'' then
                  (let fp = takeWhile is_digit r2; r3 = dropWhile is_digit r2;
                       (e, r4) = exponentPart r3
                   in Some (Some ((of_int (digits_val ip) + fraction_val fp) * pow10 e), r4))
                else
                  (let (e, r4) = exponentPart r1
                   in Some (Some (of_int (digits_val ip) * pow10 e), r4)))
         else
           (case r1 of
              [] \<Rightarrow> None
            | c # r2 \<Rightarrow>
                if c = CHR ''.'' \<and> takeWhile is_digit r2 \<noteq> [] then
                  (let fp = takeWhile is_digit r2; r3 = dropWhile is_digit r2;
                       (e, r4) = exponentPart r3
                   in Some (Some (fraction_val fp * pow10 e), r4))
                else None)))"

text \<open>The number value of a literal: its exact value rounded to a double.\<close>

fun literalValue :: "rat option \<Rightarrow> jsnum" where
  "literalValue None = PosInf"
| "literalValue (Some r) = toDouble r"

text \<open>The same with an optional sign in front (\<open>StrDecimalLiteral\<close>), as a number.\<close>

definition strDecimalLiteral :: "string \<Rightarrow> (jsnum \<times> string) option" where
  "strDecimalLiteral s =
     (case s of
        [] \<Rightarrow> None
      | c # r \<Rightarrow>
          if c = CHR ''-'' then
            map_option (\<lambda>(v, rest). (js_neg (literalValue v), rest)) (strUnsignedDecimalLiteral r)
          else if c = CHR ''+'' then
            map_option (\<lambda>(v, rest). (literalValue v, rest)) (strUnsignedDecimalLiteral r)
          else map_option (\<lambda>(v, rest). (literalValue v, rest)) (strUnsignedDecimalLiteral s))"



section \<open>Helpers: the potential payout (utils/helpers)\<close>



section \<open>Platform functions used by the authentication code\<close>

text \<open>The exceptions that these functions and the code that calls them can raise.\<close>

datatype js_error = SyntaxError | TypeError | InvalidCharacterError

subsection \<open>\<open>String.prototype.split\<close> with a one-character separator\<close>

fun split :: "char \<Rightarrow> string \<Rightarrow> string list" where
  "split sep [] = [[]]"
| "split sep (c # cs) =
     (if c = sep then [] # split sep cs
      else (case split sep cs of
              [] \<Rightarrow> [[c]]
            | x # xs \<Rightarrow> (c # x) # xs))"

subsection \<open>\<open>atob\<close>: forgiving base64 decoding\<close>

text \<open>ASCII white space: tab, line feed, form feed, carriage return, space.\<close>

definition is_ascii_whitespace :: "char \<Rightarrow> bool" where
  "is_ascii_whitespace c = (of_char c \<in> {9, 10, 12, 13, 32 :: int})"

text \<open>The six-bit value of a character of the base64 alphabet.\<close>

definition base64_value :: "char \<Rightarrow> int option" where
  "base64_value c =
     (let n = of_char c :: int in
      if 65 \<le> n \<and> n \<le> 90 then Some (n - 65)
      else if 97 \<le> n \<and> n \<le> 122 then Some (n - 71)
      else if 48 \<le> n \<and> n \<le> 57 then Some (n + 4)
      else if n = 43 then Some 62
      else if n = 47 then Some 63
      else None)"

text \<open>
  Four six-bit values give three bytes; a final group of three gives two bytes and a
  final group of two gives one, the surplus bits being dropped.
\<close>

fun base64_bytes :: "int list \<Rightarrow> int list" where
  "base64_bytes (a # b # c # d # rest) =
     (let n = ((a * 64 + b) * 64 + c) * 64 + d
      in (n div 65536) # ((n div 256) mod 256) # (n mod 256) # base64_bytes rest)"
| "base64_bytes [a, b, c] = (let n = ((a * 64 + b) * 64 + c) div 4 in [n div 256, n mod 256])"
| "base64_bytes [a, b] = [(a * 64 + b) div 16]"
| "base64_bytes [a] = []"
| "base64_bytes [] = []"

text \<open>If the data ends with one or two \<open>=\<close>, they are removed.\<close>

definition strip_padding :: "string \<Rightarrow> string" where
  "strip_padding d =
     (case rev d of
        [] \<Rightarrow> d
      | e1 # r1 \<Rightarrow>
          if e1 = CHR ''='' then
            (case r1 of
               [] \<Rightarrow> []
             | e2 # r2 \<Rightarrow> if e2 = CHR ''='' then rev r2 else rev r1)
          else d)"

text \<open>
  \<open>atob\<close> returns the decoded bytes as a string of characters below U+0100, or fails
  (\<open>None\<close>: it throws an \<open>InvalidCharacterError\<close>). White space is removed first; padding
  is removed if the length is a multiple of four; a length that then leaves remainder 1,
  or a character outside the alphabet, is a failure.
\<close>

definition atob :: "string \<Rightarrow> string option" where
  "atob input =
     (let d = filter (\<lambda>c. \<not> is_ascii_whitespace c) input;
          d' = (if length d mod 4 = 0 then strip_padding d else d)
      in if length d' mod 4 = 1 then None
         else (case those (map base64_value d') of
                 None \<Rightarrow> None
               | Some vs \<Rightarrow> Some (map char_of (base64_bytes vs))))"

subsection \<open>\<open>JSON.parse\<close>\<close>

text \<open>
  A parsed JSON value. Numbers are doubles (the two zeros are not told apart); strings
  are lists of UTF-16 code units (a \<open>\u\<close> escape can name any of them); an object keeps its members in the order
  of the text.
\<close>

datatype json =
  JNull
  | JBool bool
  | JNum jsnum
  | JStr "int list"
  | JArr "json list"
  | JObj "(int list \<times> json) list"

text \<open>The code units of a string of characters below U+0100.\<close>

definition units :: "string \<Rightarrow> int list" where
  "units s = map of_char s"

definition hex_value :: "char \<Rightarrow> int option" where
  "hex_value c =
     (let n = of_char c :: int in
      if 48 \<le> n \<and> n \<le> 57 then Some (n - 48)
      else if 65 \<le> n \<and> n \<le> 70 then Some (n - 55)
      else if 97 \<le> n \<and> n \<le> 102 then Some (n - 87)
      else None)"

text \<open>The code unit named by exactly four hexadecimal digits.\<close>

definition hex4 :: "string \<Rightarrow> int option" where
  "hex4 s =
     (if length s = 4 then
        map_option (foldl (\<lambda>a h. 16 * a + h) 0) (those (map hex_value s))
      else None)"

text \<open>The character after a backslash, other than \<open>u\<close>.\<close>

definition simple_escape :: "char \<Rightarrow> int option" where
  "simple_escape c =
     (if c = CHR 0x22 then Some 34
      else if c = CHR 0x5C then Some 92
      else if c = CHR ''/'' then Some 47
      else if c = CHR ''b'' then Some 8
      else if c = CHR ''f'' then Some 12
      else if c = CHR ''n'' then Some 10
      else if c = CHR ''r'' then Some 13
      else if c = CHR ''t'' then Some 9
      else None)"

text \<open>
  A string literal, read from just after its opening quote up to its closing quote:
  the code units of the string and the text after the closing quote. Control characters
  must be escaped.
\<close>

function lexString :: "string \<Rightarrow> (int list \<times> string) option" where
  "lexString [] = None"
| "lexString (c # r) =
     (if c = CHR 0x22 then Some ([], r)
      else if c = CHR 0x5C then
        (case r of
           [] \<Rightarrow> None
         | e # r2 \<Rightarrow>
             if e = CHR ''u'' then
               (case hex4 (take 4 r2) of
                  None \<Rightarrow> None
                | Some n \<Rightarrow> map_option (\<lambda>(us, rest). (n # us, rest)) (lexString (drop 4 r2)))
             else
               (case simple_escape e of
                  None \<Rightarrow> None
                | Some n \<Rightarrow> map_option (\<lambda>(us, rest). (n # us, rest)) (lexString r2)))
      else if (of_char c :: int) < 32 then None
      else map_option (\<lambda>(us, rest). (of_char c # us, rest)) (lexString r))"
  by pat_completeness auto
termination
  by (relation "measure length") auto

text \<open>
  A number literal at the start of a text, in three parts. The integer part: an
  optional minus sign and digits, without a superfluous leading zero.
\<close>

definition jsonInt :: "string \<Rightarrow> (bool \<times> int \<times> string) option" where
  "jsonInt s =
     (let neg = (take 1 s = ''-'');
          s1 = (if neg then drop 1 s else s);
          ip = takeWhile is_digit s1
      in if ip = [] \<or> (1 < length ip \<and> take 1 ip = ''0'') then None
         else Some (neg, digits_val ip, dropWhile is_digit s1))"

text \<open>The optional fraction: a dot and at least one digit.\<close>

definition jsonFrac :: "string \<Rightarrow> (rat \<times> string) option" where
  "jsonFrac s =
     (if take 1 s = ''.'' then
        (let fp = takeWhile is_digit (drop 1 s)
         in if fp = [] then None else Some (fraction_val fp, dropWhile is_digit (drop 1 s)))
      else Some (0, s))"

text \<open>The optional exponent: \<open>e\<close> or \<open>E\<close>, an optional sign, at least one digit.\<close>

definition jsonExp :: "string \<Rightarrow> (int \<times> string) option" where
  "jsonExp s =
     (if take 1 s = ''e'' \<or> take 1 s = ''E'' then
        (let s1 = drop 1 s;
             s2 = (if take 1 s1 = ''-'' \<or> take 1 s1 = ''+'' then drop 1 s1 else s1);
             ep = takeWhile is_digit s2
         in if ep = [] then None
            else Some ((if take 1 s1 = ''-'' then - digits_val ep else digits_val ep),
                       dropWhile is_digit s2))
      else Some (0, s))"

text \<open>The literal denotes a decimal number, and its value is that number rounded to a
  double.\<close>

definition lexNumber :: "string \<Rightarrow> (jsnum \<times> string) option" where
  "lexNumber s =
     (case jsonInt s of
        None \<Rightarrow> None
      | Some (neg, ip, r1) \<Rightarrow>
          (case jsonFrac r1 of
             None \<Rightarrow> None
           | Some (fp, r2) \<Rightarrow>
               (case jsonExp r2 of
                  None \<Rightarrow> None
                | Some (e, r3) \<Rightarrow>
                    (let v = (of_int ip + fp) * pow10 e
                     in Some (toDouble (if neg then - v else v), r3)))))"

text \<open>The tokens of a JSON text: the six structural characters and the scalar values.\<close>

datatype jtoken = TLBrace | TRBrace | TLBrack | TRBrack | TColon | TComma | TScalar json

text \<open>JSON white space: tab, line feed, carriage return, space.\<close>

definition is_json_ws :: "char \<Rightarrow> bool" where
  "is_json_ws c = (of_char c \<in> {9, 10, 13, 32 :: int})"

function tokenize :: "string \<Rightarrow> jtoken list option" where
  "tokenize [] = Some []"
| "tokenize (c # r) =
     (if is_json_ws c then tokenize r
      else if c = CHR ''{'' then map_option ((#) TLBrace) (tokenize r)
      else if c = CHR ''}'' then map_option ((#) TRBrace) (tokenize r)
      else if c = CHR ''['' then map_option ((#) TLBrack) (tokenize r)
      else if c = CHR '']'' then map_option ((#) TRBrack) (tokenize r)
      else if c = CHR '':'' then map_option ((#) TColon) (tokenize r)
      else if c = CHR '','' then map_option ((#) TComma) (tokenize r)
      else if c = CHR 0x22 then
        (case lexString r of
           None \<Rightarrow> None
         | Some (us, rest) \<Rightarrow> map_option ((#) (TScalar (JStr us))) (tokenize rest))
      else if c = CHR ''t'' then
        (if take 3 r = ''rue'' then map_option ((#) (TScalar (JBool True))) (tokenize (drop 3 r))
         else None)
      else if c = CHR ''f'' then
        (if take 4 r = ''alse'' then map_option ((#) (TScalar (JBool False))) (tokenize (drop 4 r))
         else None)
      else if c = CHR ''n'' then
        (if take 3 r = ''ull'' then map_option ((#) (TScalar JNull)) (tokenize (drop 3 r))
         else None)
      else if c = CHR ''-'' \<or> is_digit c then
        (case lexNumber (c # r) of
           None \<Rightarrow> None
         | Some (v, rest) \<Rightarrow> map_option ((#) (TScalar (JNum v))) (tokenize rest))
      else None)"
  by pat_completeness auto
termination
proof -
  have string_shorter: "length rest < length s" if "lexString s = Some (us, rest)"
    for s us rest
    using that
  proof (induction s arbitrary: us rest rule: lexString.induct)
    case 1
    then show ?case by simp
  next
    case (2 c r)
    show ?case
    proof (cases "c = CHR 0x22")
      case True
      with "2.prems" show ?thesis by simp
    next
      case notq: False
      show ?thesis
      proof (cases "c = CHR 0x5C")
        case True
        with notq "2.prems" obtain e r2 where r: "r = e # r2" by (cases r) auto
        show ?thesis
        proof (cases "e = CHR ''u''")
          case u: True
          with True notq r "2.prems" obtain n us' where
            h: "hex4 (take 4 r2) = Some n" and l: "lexString (drop 4 r2) = Some (us', rest)"
            by (auto split: option.splits)
          from "2.IH"(1) [OF notq True r u h l] show ?thesis by (simp add: r)
        next
          case nu: False
          with True notq r "2.prems" obtain n us' where
            h: "simple_escape e = Some n" and l: "lexString r2 = Some (us', rest)"
            by (auto split: option.splits)
          from "2.IH"(2) [OF notq True r nu h l] show ?thesis by (simp add: r)
        qed
      next
        case False
        with notq "2.prems" have c: "\<not> (of_char c :: int) < 32" by (auto split: if_splits)
        with False notq "2.prems" obtain us' where l: "lexString r = Some (us', rest)"
          by auto
        from "2.IH"(3) [OF notq False c l] show ?thesis by simp
      qed
    qed
  qed
  have int_shorter: "length rest \<le> length r" if "jsonInt (c # r) = Some (neg, ip, rest)"
    for c r neg ip rest
  proof (cases "c = CHR ''-''")
    case True
    with that have "rest = dropWhile is_digit r"
      by (simp add: jsonInt_def Let_def split: if_splits)
    then show ?thesis by (simp add: length_dropWhile_le)
  next
    case False
    with that have "takeWhile is_digit (c # r) \<noteq> []"
      and rest: "rest = dropWhile is_digit (c # r)"
      by (simp_all add: jsonInt_def Let_def split: if_splits)
    then have "is_digit c" by (simp split: if_splits)
    with rest show ?thesis by (simp add: length_dropWhile_le)
  qed
  have frac_shorter: "length rest \<le> length s" if "jsonFrac s = Some (fp, rest)"
    for s fp rest
  proof (cases "take 1 s = ''.''")
    case True
    with that have "rest = dropWhile is_digit (drop 1 s)"
      by (simp add: jsonFrac_def Let_def split: if_splits)
    moreover have "length (dropWhile is_digit (drop 1 s)) \<le> length (drop 1 s)"
      by (rule length_dropWhile_le)
    ultimately show ?thesis by simp
  next
    case False
    with that show ?thesis by (simp add: jsonFrac_def)
  qed
  have exp_shorter: "length rest \<le> length s" if "jsonExp s = Some (e, rest)"
    for s e rest
  proof (cases "take 1 s = ''e'' \<or> take 1 s = ''E''")
    case True
    define s1 where "s1 = drop 1 s"
    define s2 where "s2 = (if take 1 s1 = ''-'' \<or> take 1 s1 = ''+'' then drop 1 s1 else s1)"
    from True that have "rest = dropWhile is_digit s2"
      unfolding jsonExp_def Let_def s2_def s1_def by (simp split: if_splits)
    moreover have "length (dropWhile is_digit s2) \<le> length s2"
      by (rule length_dropWhile_le)
    moreover have "length s2 \<le> length s1" by (simp add: s2_def)
    moreover have "length s1 \<le> length s" by (simp add: s1_def)
    ultimately show ?thesis by simp
  next
    case False
    with that show ?thesis by (simp add: jsonExp_def)
  qed
  have number_shorter: "length rest \<le> length r" if "lexNumber (c # r) = Some (v, rest)"
    for c r v rest
  proof -
    from that obtain neg ip r1 fp r2 e where
      i: "jsonInt (c # r) = Some (neg, ip, r1)" and
      f: "jsonFrac r1 = Some (fp, r2)" and
      x: "jsonExp r2 = Some (e, rest)"
      by (auto simp: lexNumber_def Let_def split: option.splits)
    from int_shorter [OF i] frac_shorter [OF f] exp_shorter [OF x]
    show ?thesis by simp
  qed
  show ?thesis
  proof (relation "measure length")
    show "wf (measure length)" by simp
  next
    fix c r x2 x y
    assume "lexString r = Some x2" and "(x, y) = x2"
    then have "lexString r = Some (x, y)" by simp
    from string_shorter [OF this] show "(y, c # r) \<in> measure length" by simp
  next
    fix c r x2 x y
    assume "lexNumber (c # r) = Some x2" and "(x, y) = x2"
    then have "lexNumber (c # r) = Some (x, y)" by simp
    from number_shorter [OF this] show "(y, c # r) \<in> measure length" by simp
  qed simp_all
qed

text \<open>
  The parser reads the tokens from left to right with a stack of the arrays and objects
  that are still open: the elements of an open array read so far (latest first), or
  the members of an open object read so far and the key that waits for its value.
\<close>

datatype frame = FrArr "json list" | FrObj "(int list \<times> json) list" "int list option"

text \<open>What the parser expects next; \<open>Done\<close> holds the finished value.\<close>

datatype pstate =
  ExpectValue
  | ExpectValueOrEnd
  | ExpectKeyOrEnd
  | ExpectKey
  | ExpectColon
  | ExpectCommaOrEnd
  | Done json

text \<open>A finished value goes into the innermost open array or object, or is the result.\<close>

fun deliver :: "json \<Rightarrow> frame list \<Rightarrow> (pstate \<times> frame list) option" where
  "deliver v [] = Some (Done v, [])"
| "deliver v (FrArr xs # st) = Some (ExpectCommaOrEnd, FrArr (v # xs) # st)"
| "deliver v (FrObj kvs (Some k) # st) = Some (ExpectCommaOrEnd, FrObj ((k, v) # kvs) None # st)"
| "deliver v (FrObj kvs None # st) = None"

fun closeArray :: "frame list \<Rightarrow> (pstate \<times> frame list) option" where
  "closeArray (FrArr xs # st) = deliver (JArr (rev xs)) st"
| "closeArray st = None"

fun closeObject :: "frame list \<Rightarrow> (pstate \<times> frame list) option" where
  "closeObject (FrObj kvs None # st) = deliver (JObj (rev kvs)) st"
| "closeObject st = None"

fun setKey :: "int list \<Rightarrow> frame list \<Rightarrow> (pstate \<times> frame list) option" where
  "setKey k (FrObj kvs None # st) = Some (ExpectColon, FrObj kvs (Some k) # st)"
| "setKey k st = None"

fun startValue :: "jtoken \<Rightarrow> frame list \<Rightarrow> (pstate \<times> frame list) option" where
  "startValue (TScalar v) st = deliver v st"
| "startValue TLBrack st = Some (ExpectValueOrEnd, FrArr [] # st)"
| "startValue TLBrace st = Some (ExpectKeyOrEnd, FrObj [] None # st)"
| "startValue t st = None"

fun afterComma :: "frame list \<Rightarrow> (pstate \<times> frame list) option" where
  "afterComma (FrArr xs # st) = Some (ExpectValue, FrArr xs # st)"
| "afterComma (FrObj kvs None # st) = Some (ExpectKey, FrObj kvs None # st)"
| "afterComma st = None"

fun pstep :: "pstate \<Rightarrow> frame list \<Rightarrow> jtoken \<Rightarrow> (pstate \<times> frame list) option" where
  "pstep ExpectValue st t = startValue t st"
| "pstep ExpectValueOrEnd st t = (if t = TRBrack then closeArray st else startValue t st)"
| "pstep ExpectKeyOrEnd st t =
     (case t of
        TRBrace \<Rightarrow> closeObject st
      | TScalar (JStr k) \<Rightarrow> setKey k st
      | _ \<Rightarrow> None)"
| "pstep ExpectKey st t = (case t of TScalar (JStr k) \<Rightarrow> setKey k st | _ \<Rightarrow> None)"
| "pstep ExpectColon st t = (if t = TColon then Some (ExpectValue, st) else None)"
| "pstep ExpectCommaOrEnd st t =
     (case t of
        TComma \<Rightarrow> afterComma st
      | TRBrack \<Rightarrow> closeArray st
      | TRBrace \<Rightarrow> closeObject st
      | _ \<Rightarrow> None)"
| "pstep (Done v) st t = None"

fun parseTokens :: "pstate \<Rightarrow> frame list \<Rightarrow> jtoken list \<Rightarrow> json option" where
  "parseTokens ps st [] = (case ps of Done v \<Rightarrow> Some v | _ \<Rightarrow> None)"
| "parseTokens ps st (t # ts) =
     (case pstep ps st t of
        None \<Rightarrow> None
      | Some (ps', st') \<Rightarrow> parseTokens ps' st' ts)"

text \<open>\<open>JSON.parse\<close>: the value of a text, or \<open>None\<close> where it throws a \<open>SyntaxError\<close>.\<close>

definition JSON_parse :: "string \<Rightarrow> json option" where
  "JSON_parse txt =
     (case tokenize txt of
        None \<Rightarrow> None
      | Some ts \<Rightarrow> parseTokens ExpectValue [] ts)"

subsection \<open>Conversion of a JSON value to a number\<close>

text \<open>
  White space and line terminators of numeric strings, as code units: the ones below
  U+0100, the Unicode space separators, the line and paragraph separators and the
  byte-order mark.
\<close>

definition is_str_whitespace :: "int \<Rightarrow> bool" where
  "is_str_whitespace u =
     (u \<in> {9, 10, 11, 12, 13, 32, 160, 5760, 8232, 8233, 8239, 8287, 12288, 65279}
      \<or> (8192 \<le> u \<and> u \<le> 8202))"

definition trimString :: "int list \<Rightarrow> int list" where
  "trimString us = rev (dropWhile is_str_whitespace (rev (dropWhile is_str_whitespace us)))"

text \<open>The value of a digit of a base up to 16, if the character is one.\<close>

definition digit_in_base :: "int \<Rightarrow> char \<Rightarrow> int option" where
  "digit_in_base b c =
     (case hex_value c of
        None \<Rightarrow> None
      | Some v \<Rightarrow> if v < b then Some v else None)"

text \<open>
  A whole string that is a hexadecimal, octal or binary integer literal: \<open>0x\<close>, \<open>0o\<close>
  or \<open>0b\<close> (in either case) and at least one digit of the base.
\<close>

definition nonDecimalIntegerLiteral :: "string \<Rightarrow> int option" where
  "nonDecimalIntegerLiteral s =
     (if take 1 s = ''0'' \<and> 2 < length s then
        (let p = take 1 (drop 1 s);
             b = (if p = ''x'' \<or> p = ''X'' then 16
                  else if p = ''o'' \<or> p = ''O'' then 8
                  else if p = ''b'' \<or> p = ''B'' then 2 else (0::int))
         in if b = 0 then None
            else map_option (foldl (\<lambda>a d. b * a + d) 0)
                   (those (map (digit_in_base b) (drop 2 s))))
      else None)"

text \<open>
  The number a string converts to (\<open>StringToNumber\<close>): the string is trimmed; the empty
  string is 0; otherwise the whole of it must be a numeric literal, and anything else is
  NaN. A code unit from U+0100 on that is not white space is in no literal.
\<close>

definition StringToNumber :: "int list \<Rightarrow> jsnum" where
  "StringToNumber us =
     (let t = trimString us in
      if t = [] then Fin 0
      else if \<exists>u \<in> set t. u < 0 \<or> 255 < u then NaN
      else
        (let s = map char_of t in
         case nonDecimalIntegerLiteral s of
           Some n \<Rightarrow> toDouble (of_int n)
         | None \<Rightarrow>
             (case strDecimalLiteral s of
                None \<Rightarrow> NaN
              | Some (v, rest) \<Rightarrow> if rest = [] then v else NaN)))"

text \<open>
  The conversion of an object to a primitive value looks up \<open>toString\<close> on it. A parsed
  object that has a member of this name has there a value that cannot be called, which
  hides the inherited method, and the conversion raises a \<open>TypeError\<close>. An array is joined
  from the strings of its elements, so it raises if one of them does; null elements are
  not converted.
\<close>

fun toStringRaises :: "json \<Rightarrow> bool" where
  "toStringRaises (JObj kvs) = (units ''toString'' \<in> set (map fst kvs))"
| "toStringRaises (JArr xs) = list_ex toStringRaises xs"
| "toStringRaises v = False"

text \<open>
  The number that the string form of a value converts to, for a value that stands as
  an element of an array (or is the array itself) and whose string form exists: an array
  is joined with commas, so one with two or more elements is not numeric; null is the
  empty string; a boolean is its name and an object is \<open>[object Object]\<close>, neither
  numeric; a number converts back to itself.
\<close>

fun elementToNumber :: "json \<Rightarrow> jsnum" where
  "elementToNumber JNull = Fin 0"
| "elementToNumber (JBool b) = NaN"
| "elementToNumber (JNum d) = d"
| "elementToNumber (JStr us) = StringToNumber us"
| "elementToNumber (JArr []) = Fin 0"
| "elementToNumber (JArr [x]) = elementToNumber x"
| "elementToNumber (JArr (x # y # zs)) = NaN"
| "elementToNumber (JObj kvs) = NaN"

text \<open>\<open>ToNumber\<close> of a parsed JSON value, as a comparison with a number applies it.\<close>

fun ToNumber :: "json \<Rightarrow> js_error + jsnum" where
  "ToNumber JNull = Inr (Fin 0)"
| "ToNumber (JBool b) = Inr (if b then Fin 1 else Fin 0)"
| "ToNumber (JNum d) = Inr d"
| "ToNumber (JStr us) = Inr (StringToNumber us)"
| "ToNumber (JArr xs) =
     (if toStringRaises (JArr xs) then Inl TypeError else Inr (elementToNumber (JArr xs)))"
| "ToNumber (JObj kvs) =
     (if toStringRaises (JObj kvs) then Inl TypeError else Inr NaN)"

section \<open>Authentication: token storage and token expiry (services/auth, utils/auth)\<close>

text \<open>
  \<open>localStorage\<close>: a map from keys to stored strings; \<open>getItem\<close> of a missing key is null.
\<close>

type_synonym Storage = "string \<Rightarrow> string option"

definition AUTH_STORAGE_KEYS_TOKEN :: string where
  "AUTH_STORAGE_KEYS_TOKEN = ''roach_parlor_token''"

definition AUTH_STORAGE_KEYS_REFRESH_TOKEN :: string where
  "AUTH_STORAGE_KEYS_REFRESH_TOKEN = ''roach_parlor_refresh_token''"

definition AUTH_STORAGE_KEYS_USER :: string where
  "AUTH_STORAGE_KEYS_USER = ''roach_parlor_user''"

text \<open>
  \<open>tokenStorage.getUser\<close>: \<open>userStr ? JSON.parse(userStr) : null\<close>. A missing entry and an
  empty string are falsy and give null (\<open>Inr None\<close>); any other stored text is parsed, and
  the exception of \<open>JSON.parse\<close> is not caught here. The parsed value is returned as it
  is (the type \<open>User\<close> is not checked at run time).
\<close>

definition getUser :: "Storage \<Rightarrow> js_error + json option" where
  "getUser localStorage =
     (case localStorage AUTH_STORAGE_KEYS_USER of
        None \<Rightarrow> Inr None
      | Some userStr \<Rightarrow>
          if userStr = [] then Inr None
          else (case JSON_parse userStr of
                  None \<Rightarrow> Inl SyntaxError
                | Some v \<Rightarrow> Inr (if v = JNull then None else Some v)))"

text \<open>\<open>tokenStorage.setUser\<close> and \<open>clearAll\<close>; \<open>userText\<close> is \<open>JSON.stringify(user)\<close>.\<close>

definition setUser :: "string \<Rightarrow> Storage \<Rightarrow> Storage" where
  "setUser userText localStorage = localStorage(AUTH_STORAGE_KEYS_USER \<mapsto> userText)"

definition clearAll :: "Storage \<Rightarrow> Storage" where
  "clearAll localStorage =
     localStorage(AUTH_STORAGE_KEYS_TOKEN := None, AUTH_STORAGE_KEYS_REFRESH_TOKEN := None,
       AUTH_STORAGE_KEYS_USER := None)"

text \<open>
  \<open>token.split('.')[1]\<close>: the second segment, or undefined (\<open>None\<close>) if the token has no
  dot.
\<close>

definition middleSegment :: "string \<Rightarrow> string option" where
  "middleSegment token =
     (case split CHR ''.'' token of
        s0 # s1 # rest \<Rightarrow> Some s1
      | _ \<Rightarrow> None)"

text \<open>
  \<open>JSON.parse(atob(token.split('.')[1]))\<close>. An undefined argument of \<open>atob\<close> is converted
  to the string \<open>undefined\<close>.
\<close>

definition decodePayload :: "string \<Rightarrow> js_error + json" where
  "decodePayload token =
     (case atob (case middleSegment token of None \<Rightarrow> ''undefined'' | Some seg \<Rightarrow> seg) of
        None \<Rightarrow> Inl InvalidCharacterError
      | Some txt \<Rightarrow>
          (case JSON_parse txt of
             None \<Rightarrow> Inl SyntaxError
           | Some payload \<Rightarrow> Inr payload))"

text \<open>
  \<open>payload.exp\<close>: reading a property of null raises a \<open>TypeError\<close>; an object gives the
  value of its member \<open>exp\<close> (the last one, if the text repeated the key) or undefined
  (\<open>None\<close>); no other JSON value has a property of this name.
\<close>

fun payload_exp :: "json \<Rightarrow> js_error + json option" where
  "payload_exp JNull = Inl TypeError"
| "payload_exp (JObj kvs) = Inr (map_of (rev kvs) (units ''exp''))"
| "payload_exp v = Inr None"

text \<open>
  \<open>payload.exp < currentTime\<close> with a number on the right: the left side is converted to
  a number, which can raise; undefined converts to NaN, and a comparison with NaN is
  false.
\<close>

definition lessThanNumber :: "json option \<Rightarrow> jsnum \<Rightarrow> js_error + bool" where
  "lessThanNumber v t =
     (case v of
        None \<Rightarrow> Inr False
      | Some x \<Rightarrow>
          (case ToNumber x of
             Inl err \<Rightarrow> Inl err
           | Inr d \<Rightarrow> Inr (js_lt d t)))"

text \<open>
  \<open>isTokenExpired\<close>; \<open>now\<close> is the value of \<open>Date.now()\<close>, in milliseconds, and
  \<open>currentTime\<close> the double nearest to its thousandth. Every exception raised in the
  \<open>try\<close> block is caught and makes the result true.
\<close>

definition isTokenExpired :: "int \<Rightarrow> string \<Rightarrow> bool" where
  "isTokenExpired now token =
     (case decodePayload token of
        Inl err \<Rightarrow> True
      | Inr payload \<Rightarrow>
          (let currentTime = js_div (Fin (of_int now)) (Fin 1000) in
           case payload_exp payload of
             Inl err \<Rightarrow> True
           | Inr e \<Rightarrow>
               (case lessThanNumber e currentTime of
                  Inl err \<Rightarrow> True
                | Inr b \<Rightarrow> b)))"

section \<open>Navigation: the selected tab\<close>

lemma startsWith_prefix: "startsWith s p = prefix p s"
  by (induction s p rule: startsWith.induct) auto

lemma findIndex_lower: "- 1 \<le> findIndex p xs"
  by (induction xs) (auto simp: Let_def)

lemma findIndex_none: "(findIndex p xs < 0) = (\<forall>x \<in> set xs. \<not> p x)"
proof (induction xs)
  case Nil
  show ?case by simp
next
  case (Cons x xs)
  have "- 1 \<le> findIndex p xs" by (rule findIndex_lower)
  with Cons show ?case by (auto simp: Let_def)
qed

lemma findIndex_first:
  assumes "0 \<le> findIndex p xs"
  shows "nat (findIndex p xs) < length xs \<and> p (xs ! nat (findIndex p xs)) \<and>
         (\<forall>j < nat (findIndex p xs). \<not> p (xs ! j))"
  using assms
proof (induction xs)
  case Nil
  then show ?case by simp
next
  case (Cons x xs)
  show ?case
  proof (cases "p x")
    case True
    then show ?thesis by simp
  next
    case False
    with Cons.prems have nn: "0 \<le> findIndex p xs"
      by (auto simp: Let_def split: if_splits)
    from Cons.IH [OF nn] have ih: "nat (findIndex p xs) < length xs"
      "p (xs ! nat (findIndex p xs))" "\<forall>j < nat (findIndex p xs). \<not> p (xs ! j)"
      by auto
    from False nn have eq: "nat (findIndex p (x # xs)) = Suc (nat (findIndex p xs))"
      by (simp add: Let_def nat_add_distrib)
    show ?thesis
      unfolding eq using ih False by (auto simp: less_Suc_eq_0_disj)
  qed
qed

text \<open>
  Claim C9. For every current path and every list of visible items: an item matches when
  its path is a prefix of the current path, the root item \<open>/\<close> only when the current path
  is exactly \<open>/\<close>; the selected tab is the index of the first matching item, and index 0
  (the first visible tab) when no item matches.
\<close>

theorem navigation_selected_tab:
  "(itemMatches cur item =
      (if path item = ''/'' then cur = ''/'' else prefix (path item) cur)) \<and>
   ((\<exists>it \<in> set items. itemMatches cur it) \<longrightarrow>
      0 \<le> selectedTab items cur \<and>
      nat (selectedTab items cur) < length items \<and>
      itemMatches cur (items ! nat (selectedTab items cur)) \<and>
      (\<forall>j < nat (selectedTab items cur). \<not> itemMatches cur (items ! j))) \<and>
   ((\<forall>it \<in> set items. \<not> itemMatches cur it) \<longrightarrow> selectedTab items cur = 0)"
proof (intro conjI impI)
  show "itemMatches cur item =
      (if path item = ''/'' then cur = ''/'' else prefix (path item) cur)"
    by (simp add: itemMatches_def startsWith_prefix)
next
  assume ex: "\<exists>it \<in> set items. itemMatches cur it"
  then have nn: "0 \<le> findIndex (itemMatches cur) items"
    using findIndex_none [of "itemMatches cur" items] by auto
  then have sel: "selectedTab items cur = findIndex (itemMatches cur) items"
    by (simp add: selectedTab_def currentIndex_def Let_def)
  from nn sel show "0 \<le> selectedTab items cur" by simp
  from findIndex_first [OF nn] sel
  show "nat (selectedTab items cur) < length items"
    and "itemMatches cur (items ! nat (selectedTab items cur))"
    and "\<forall>j < nat (selectedTab items cur). \<not> itemMatches cur (items ! j)"
    by simp_all
next
  assume "\<forall>it \<in> set items. \<not> itemMatches cur it"
  then have "findIndex (itemMatches cur) items < 0"
    using findIndex_none [of "itemMatches cur" items] by simp
  then show "selectedTab items cur = 0"
    by (simp add: selectedTab_def currentIndex_def Let_def)
qed

text \<open>
  The claim's examples on the real item list of a non-admin user: \<open>/wagers/123\<close> selects
  the Wagers tab (index 1), \<open>/\<close> selects the Dashboard tab (index 0), and a path that
  no item matches falls back to index 0.
\<close>

theorem navigation_selected_tab_witness:
  "itemMatches ''/wagers/123'' (visibleItems False ! 1) \<and>
   \<not> itemMatches ''/wagers/123'' (visibleItems False ! 0) \<and>
   selectedTab (visibleItems False) ''/wagers/123'' = 1 \<and>
   selectedTab (visibleItems False) ''/'' = 0 \<and>
   selectedTab (visibleItems False) ''/settings'' = 0"
proof -
  have m: "itemMatches ''/wagers/123'' (visibleItems False ! 1)"
    by (simp add: visibleItems_def navigationItems_def itemMatches_def)
  have mem: "visibleItems False ! 1 \<in> set (visibleItems False)"
    by (simp add: visibleItems_def navigationItems_def)
  have ex: "\<exists>it \<in> set (visibleItems False). itemMatches ''/wagers/123'' it"
    using m mem by blast
  have none: "\<forall>it \<in> set (visibleItems False). \<not> itemMatches ''/settings'' it"
    by (simp add: visibleItems_def navigationItems_def itemMatches_def)
  have n0: "\<not> itemMatches ''/wagers/123'' (visibleItems False ! 0)"
    by (simp add: visibleItems_def navigationItems_def itemMatches_def)
  have s1: "selectedTab (visibleItems False) ''/wagers/123'' = 1"
    by (simp add: selectedTab_def currentIndex_def visibleItems_def navigationItems_def
        itemMatches_def Let_def)
  have s0: "selectedTab (visibleItems False) ''/'' = 0"
    by (simp add: selectedTab_def currentIndex_def visibleItems_def navigationItems_def
        itemMatches_def Let_def)
  from navigation_selected_tab [of "''/settings''" undefined "visibleItems False"] none
  have s2: "selectedTab (visibleItems False) ''/settings'' = 0" by blast
  from navigation_selected_tab [of "''/wagers/123''" undefined "visibleItems False"] ex
  have "itemMatches ''/wagers/123''
          (visibleItems False ! nat (selectedTab (visibleItems False) ''/wagers/123''))"
    by blast
  with m n0 s1 s0 s2 show ?thesis by simp
qed

section \<open>Wagers: active-state gating and the bulk status update\<close>

text \<open>
  Claim C2, as the code has it. A wager is active exactly when it is pending and not
  archived. The detail view renders its status buttons exactly for an active wager. The
  card renders its "Update Status" button exactly for an active wager whose card has
  \<open>showActions\<close> set (the default); a card rendered with \<open>showActions = false\<close> shows no
  status control whatever the wager.
\<close>

theorem wager_active_gating:
  "isActive w = (status w = Pending \<and> \<not> archived w) \<and>
   (statusButtons (WagerDetail dprops) \<noteq> []) = isActive (detailWager dprops) \<and>
   updateStatusButton (WagerCard cprops cst) = (isActive (wager cprops) \<and> showActions cprops)"
  by (simp add: isActive_def WagerDetail_def WagerCard_def Let_def)

text \<open>
  The claim as stated fails on the card: a pending, non-archived wager whose card is
  rendered inside a list with a non-empty selection has no status control.
\<close>

theorem wager_active_gating_counterexample:
  "isActive \<lparr>wagerId = 1, description = ''Test wager description'', amount = 100,
      line = ''-110'', status = Pending, isFrePlay = False, isLiveBet = False,
      archived = False\<rparr> \<and>
   \<not> updateStatusButton
      (WagerCard
        (listCardProps True \<lparr>selectedWagers = [2], bulkMenuAnchor = False\<rparr>
          \<lparr>wagerId = 1, description = ''Test wager description'', amount = 100,
            line = ''-110'', status = Pending, isFrePlay = False, isLiveBet = False,
            archived = False\<rparr> False)
        \<lparr>anchorEl = False, statusMenuAnchor = False\<rparr>)"
  by (simp add: isActive_def WagerCard_def listCardProps_def Let_def)

lemma set_add_distinct: "distinct s \<Longrightarrow> distinct (set_add x s)"
  by (simp add: set_add_def)

lemma set_delete_distinct: "distinct s \<Longrightarrow> distinct (set_delete x s)"
  by (simp add: set_delete_def)

lemma foldl_set_add_distinct:
  "distinct s \<Longrightarrow> distinct (foldl (\<lambda>s x. set_add x s) s xs)"
  by (induction xs arbitrary: s) (simp_all add: set_add_distinct)

lemma new_Set_distinct: "distinct (new_Set xs)"
  by (simp add: new_Set_def foldl_set_add_distinct)

lemma foldl_set_add_set:
  "set (foldl (\<lambda>s x. set_add x s) s xs) = set s \<union> set xs"
  by (induction xs arbitrary: s) (auto simp: set_add_def)

lemma new_Set_set: "set (new_Set xs) = set xs"
  by (simp add: new_Set_def foldl_set_add_set)

lemma handleSelectAll_distinct: "distinct (selectedWagers (handleSelectAll ws c st))"
  by (simp add: handleSelectAll_def new_Set_distinct)

lemma handleSelectWager_distinct: "distinct (selectedWagers (handleSelectWager i c st))"
  by (simp add: handleSelectWager_def Let_def new_Set_distinct set_add_distinct
      set_delete_distinct)

lemma count_list_map_inj:
  "inj f \<Longrightarrow> count_list (map f xs) (f x) = count_list xs x"
  by (induction xs) (auto dest: injD)

lemma count_list_distinct:
  "distinct xs \<Longrightarrow> count_list xs x = (if x \<in> set xs then 1 else 0)"
  by (induction xs) auto

text \<open>
  Claim C6. With the selection being a set of n wager ids (a duplicate-free list), a bulk
  status action calls the single-item status handler exactly n times, once for each
  selected id and with the chosen status, makes no other call (in particular no batch
  call), and leaves the selection empty.
\<close>

theorem bulk_status_update_fan_out:
  assumes "distinct (selectedWagers st)"
    and "handleBulkStatusUpdate s st = (calls, st')"
  shows "length calls = length (selectedWagers st) \<and>
     calls = map (\<lambda>wid. OnWagerStatusUpdate wid s) (selectedWagers st) \<and>
     (\<forall>wid. count_list calls (OnWagerStatusUpdate wid s) =
           (if wid \<in> set (selectedWagers st) then 1 else 0)) \<and>
     (\<forall>c \<in> set calls. \<exists>i \<in> set (selectedWagers st). c = OnWagerStatusUpdate i s) \<and>
     (\<forall>ids s'. BulkUpdateStatusApi ids s' \<notin> set calls) \<and>
     selectedWagers st' = []"
proof -
  from assms(2) have calls: "calls = map (\<lambda>wid. OnWagerStatusUpdate wid s) (selectedWagers st)"
    and st': "st' = handleBulkMenuClose (st\<lparr>selectedWagers := new_Set []\<rparr>)"
    by (simp_all add: handleBulkStatusUpdate_def)
  have len: "length calls = length (selectedWagers st)" by (simp add: calls)
  have inj: "inj (\<lambda>wid. OnWagerStatusUpdate wid s)" by (simp add: inj_def)
  have cnt: "\<forall>wid. count_list calls (OnWagerStatusUpdate wid s) =
          (if wid \<in> set (selectedWagers st) then 1 else 0)"
    unfolding calls using count_list_map_inj [OF inj] count_list_distinct [OF assms(1)]
    by simp
  have only: "\<forall>c \<in> set calls. \<exists>i \<in> set (selectedWagers st). c = OnWagerStatusUpdate i s"
    by (auto simp: calls)
  have nobatch: "\<forall>ids s'. BulkUpdateStatusApi ids s' \<notin> set calls" by (auto simp: calls)
  have empty: "selectedWagers st' = []"
    by (simp add: st' handleBulkMenuClose_def new_Set_def)
  from len calls cnt only nobatch empty show ?thesis by blast
qed

text \<open>Three wagers selected one after the other, then "Mark as Won".\<close>

theorem bulk_status_update_fan_out_witness:
  "distinct (selectedWagers
      (handleSelectWager 9 True (handleSelectWager 7 True
        (handleSelectWager 3 True initialListState)))) \<and>
   fst (handleBulkStatusUpdate Won
      (handleSelectWager 9 True (handleSelectWager 7 True
        (handleSelectWager 3 True initialListState)))) =
     [OnWagerStatusUpdate 3 Won, OnWagerStatusUpdate 7 Won, OnWagerStatusUpdate 9 Won] \<and>
   selectedWagers (snd (handleBulkStatusUpdate Won
      (handleSelectWager 9 True (handleSelectWager 7 True
        (handleSelectWager 3 True initialListState))))) = []"
proof -
  let ?st = "handleSelectWager 9 True (handleSelectWager 7 True
        (handleSelectWager 3 True initialListState))"
  have sel: "selectedWagers ?st = [3, 7, 9]"
    by (simp add: handleSelectWager_def initialListState_def new_Set_def set_add_def Let_def)
  have d: "distinct (selectedWagers ?st)" by (simp add: sel)
  have p: "handleBulkStatusUpdate Won ?st =
      (fst (handleBulkStatusUpdate Won ?st), snd (handleBulkStatusUpdate Won ?st))"
    by simp
  from bulk_status_update_fan_out [OF d p] d sel
  show ?thesis by simp
qed

section \<open>The WebSocket service: the bound on reconnection\<close>








lemma managerReconnect_unbounded:
  assumes "reconnectionAttempts so = None"
  shows "snd (managerReconnect so) = [ManagerReconnect]"
    and "reconnection (fst (managerReconnect so)) = reconnection so"
    and "reconnectionAttempts (fst (managerReconnect so)) = None"
  using assms by (simp_all add: managerReconnect_def)








section \<open>Authentication utilities: the precedence of error messages\<close>

text \<open>
  Claim C8, as the code has it. A non-empty detail text of the response is returned as
  it is; otherwise status 401, 403 and any status from 500 on give their fixed messages;
  otherwise a non-empty message is returned; otherwise the fallback text. A detail or a
  message that is present but empty counts as absent.
\<close>

theorem formatAuthError_precedence:
  "formatAuthError e =
     (case response_data_detail e of
        Some (c # cs) \<Rightarrow> c # cs
      | _ \<Rightarrow>
        (if response_status e = Some 401 then ''Invalid username or password''
         else if response_status e = Some 403 then ''Access denied''
         else if (\<exists>n. response_status e = Some n \<and> 500 \<le> n)
           then ''Server error. Please try again later.''
         else (case message e of
                 Some (c # cs) \<Rightarrow> c # cs
               | _ \<Rightarrow> ''An unexpected error occurred'')))"
  by (simp add: formatAuthError_def split: option.splits list.splits)

text \<open>
  The claim as stated fails where a field is present but empty: a response that carries
  the detail \<open>""\<close> with status 401 does not format to that detail.
\<close>

theorem formatAuthError_counterexample:
  "response_data_detail
     \<lparr>response = Some \<lparr>responseData = Some \<lparr>detail = Some ''''\<rparr>, responseStatus = Some 401\<rparr>,
      message = None\<rparr> = Some '''' \<and>
   formatAuthError
     \<lparr>response = Some \<lparr>responseData = Some \<lparr>detail = Some ''''\<rparr>, responseStatus = Some 401\<rparr>,
      message = None\<rparr> = ''Invalid username or password'' \<and>
   formatAuthError \<lparr>response = None, message = Some ''''\<rparr> = ''An unexpected error occurred''"
  by (simp add: formatAuthError_def response_data_detail_def response_status_def)

text \<open>The six cases of the test suite.\<close>

lemma formatAuthError_examples:
  "formatAuthError \<lparr>response = Some \<lparr>responseData = Some \<lparr>detail = Some ''Invalid credentials''\<rparr>,
      responseStatus = None\<rparr>, message = None\<rparr> = ''Invalid credentials''"
  "formatAuthError \<lparr>response = Some \<lparr>responseData = None, responseStatus = Some 401\<rparr>,
      message = None\<rparr> = ''Invalid username or password''"
  "formatAuthError \<lparr>response = Some \<lparr>responseData = None, responseStatus = Some 403\<rparr>,
      message = None\<rparr> = ''Access denied''"
  "formatAuthError \<lparr>response = Some \<lparr>responseData = None, responseStatus = Some 500\<rparr>,
      message = None\<rparr> = ''Server error. Please try again later.''"
  "formatAuthError \<lparr>response = None, message = Some ''Network error''\<rparr> = ''Network error''"
  "formatAuthError \<lparr>response = None, message = None\<rparr> = ''An unexpected error occurred''"
  by (simp_all add: formatAuthError_def response_data_detail_def response_status_def)

section \<open>The wager query hooks: what a status update does to the cache\<close>


















section \<open>JavaScript numbers: properties of the rounding\<close>

















section \<open>Helpers: the potential payout\<close>






























section \<open>Authentication: reading the stored user\<close>

lemma getUser_cases:
  "getUser st =
     (case st AUTH_STORAGE_KEYS_USER of
        None \<Rightarrow> Inr None
      | Some [] \<Rightarrow> Inr None
      | Some (c # cs) \<Rightarrow>
          (case JSON_parse (c # cs) of
             None \<Rightarrow> Inl SyntaxError
           | Some JNull \<Rightarrow> Inr None
           | Some v \<Rightarrow> Inr (Some v)))"
  by (simp add: getUser_def split: option.splits list.splits json.splits)

text \<open>
  Claim C3, on the code. With nothing stored, and with an empty text stored, \<open>getUser\<close>
  returns null; a stored text that is valid JSON is returned parsed; a stored text that
  is not valid JSON makes \<open>getUser\<close> raise the \<open>SyntaxError\<close> of \<open>JSON.parse\<close>, where the
  claim has it return null.
\<close>

theorem getUser_malformed_raises:
  "getUser Map.empty = Inr None \<and>
   getUser [AUTH_STORAGE_KEYS_USER \<mapsto> ''''] = Inr None \<and>
   getUser [AUTH_STORAGE_KEYS_USER \<mapsto> ''{}''] = Inr (Some (JObj [])) \<and>
   getUser [AUTH_STORAGE_KEYS_USER \<mapsto> ''{not json''] = Inl SyntaxError \<and>
   getUser [AUTH_STORAGE_KEYS_USER \<mapsto> ''undefined''] = Inl SyntaxError"
proof -
  have p1: "JSON_parse ''{}'' = Some (JObj [])" by code_simp
  have p2: "JSON_parse ''{not json'' = None" by code_simp
  have p3: "JSON_parse ''undefined'' = None" by code_simp
  show ?thesis by (simp add: getUser_def p1 p2 p3)
qed

section \<open>Authentication: token expiry\<close>


lemma decodePayload_cases:
  "decodePayload token =
     (case atob (case middleSegment token of None \<Rightarrow> ''undefined'' | Some seg \<Rightarrow> seg) of
        None \<Rightarrow> Inl InvalidCharacterError
      | Some txt \<Rightarrow> (case JSON_parse txt of None \<Rightarrow> Inl SyntaxError | Some p \<Rightarrow> Inr p))"
  by (simp add: decodePayload_def)






text \<open>
  Claim C10, as the code has it. If the middle segment decodes to a JSON value other
  than null that has no member \<open>exp\<close> (an object without that key, such as \<open>{}\<close>, or a
  value that is not an object), the token is reported as not expired. If it decodes to
  null, reading \<open>exp\<close> raises a \<open>TypeError\<close>, which the \<open>catch\<close> branch turns into true.
\<close>

theorem isTokenExpired_missing_exp:
  "(decodePayload token = Inr (JObj kvs) \<and> map_of (rev kvs) (units ''exp'') = None \<longrightarrow>
      \<not> isTokenExpired now token) \<and>
   (decodePayload token = Inr p \<and> p \<noteq> JNull \<and> (\<forall>ms. p \<noteq> JObj ms) \<longrightarrow>
      \<not> isTokenExpired now token) \<and>
   (decodePayload token = Inr JNull \<longrightarrow> isTokenExpired now token)"
proof (intro conjI impI)
  assume "decodePayload token = Inr (JObj kvs) \<and> map_of (rev kvs) (units ''exp'') = None"
  then show "\<not> isTokenExpired now token"
    by (simp add: isTokenExpired_def lessThanNumber_def)
next
  assume a: "decodePayload token = Inr p \<and> p \<noteq> JNull \<and> (\<forall>ms. p \<noteq> JObj ms)"
  then have "payload_exp p = Inr None" by (cases p) simp_all
  with a show "\<not> isTokenExpired now token"
    by (simp add: isTokenExpired_def lessThanNumber_def)
next
  assume "decodePayload token = Inr JNull"
  then show "isTokenExpired now token" by (simp add: isTokenExpired_def)
qed

text \<open>
  The payloads \<open>{}\<close> and \<open>[]\<close>: valid JSON without \<open>exp\<close>, reported as not expired; and
  the payload \<open>null\<close>, reported as expired.
\<close>

theorem isTokenExpired_missing_exp_witness:
  "decodePayload ''header.e30=.signature'' = Inr (JObj []) \<and>
   \<not> isTokenExpired 1700003600000 ''header.e30=.signature'' \<and>
   decodePayload ''header.W10=.signature'' = Inr (JArr []) \<and>
   \<not> isTokenExpired 1700003600000 ''header.W10=.signature'' \<and>
   decodePayload ''header.bnVsbA==.signature'' = Inr JNull \<and>
   isTokenExpired 1700003600000 ''header.bnVsbA==.signature''"
proof -
  have dec: "decodePayload ''header.e30=.signature'' = Inr (JObj [])" by code_simp
  have look: "map_of (rev []) (units ''exp'') = (None :: json option)" by simp
  note obj = isTokenExpired_missing_exp [of "''header.e30=.signature''" "[]" 1700003600000 JNull]
  note r1 = obj [THEN conjunct1, THEN mp, OF conjI [OF dec look]]
  have adec: "decodePayload ''header.W10=.signature'' = Inr (JArr [])" by code_simp
  have notobj: "JArr [] \<noteq> JNull \<and> (\<forall>ms. JArr [] \<noteq> JObj ms)" by simp
  note arr = isTokenExpired_missing_exp [of "''header.W10=.signature''" "[]" 1700003600000 "JArr []"]
  note r2 = arr [THEN conjunct2, THEN conjunct1, THEN mp, OF conjI [OF adec notobj]]
  have ndec: "decodePayload ''header.bnVsbA==.signature'' = Inr JNull" by code_simp
  note nul = isTokenExpired_missing_exp [of "''header.bnVsbA==.signature''" "[]" 1700003600000 JNull]
  note r3 = nul [THEN conjunct2, THEN conjunct2, THEN mp, OF ndec]
  from dec r1 adec r2 ndec r3 show ?thesis by (intro conjI)
qed

text \<open>
  The claim as stated fails for the payload \<open>null\<close>, which is valid JSON and has no \<open>exp\<close>:
  the token is reported expired.
\<close>

theorem isTokenExpired_missing_exp_counterexample:
  "atob ''bnVsbA=='' = Some ''null'' \<and>
   JSON_parse ''null'' = Some JNull \<and>
   decodePayload ''header.bnVsbA==.signature'' = Inr JNull \<and>
   isTokenExpired 1700003600000 ''header.bnVsbA==.signature''"
proof -
  have a: "atob ''bnVsbA=='' = Some ''null''" by code_simp
  have p: "JSON_parse ''null'' = Some JNull" by code_simp
  have d: "decodePayload ''header.bnVsbA==.signature'' = Inr JNull" by code_simp
  have e: "isTokenExpired 1700003600000 ''header.bnVsbA==.signature''"
    by (simp add: isTokenExpired_def d)
  from a p d e show ?thesis by (intro conjI)
qed

end
